theory Spec2Isabelle
  imports Main
begin

text \<open>
  A model of \<^verbatim>\<open>rgbkeyboards/corsair/corsair.py\<close>, the adapter class \<^verbatim>\<open>Corsair\<close> around
  the vendor's lighting library and a keypress listener: \<^verbatim>\<open>get_layout\<close>,
  \<^verbatim>\<open>set_full_led_color\<close>, \<^verbatim>\<open>set_ind_led_color\<close>, \<^verbatim>\<open>set_key_callback\<close> and
  \<^verbatim>\<open>enable_key_callback\<close>. A method that raises returns \<open>Inl\<close> of the error; a method
  that uses only \<^verbatim>\<open>self.library\<close> is a function of the library's state.
\<close>

section \<open>Python values\<close>

text \<open>
  The adapter checks its arguments dynamically (\<^verbatim>\<open>isinstance\<close>, \<^verbatim>\<open>callable\<close>,
  truthiness), so arguments are values of a Python universe: \<^verbatim>\<open>None\<close>, booleans,
  integers, strings, tuples, lists, dictionaries (items in insertion order) and function
  objects (identified by a number). Floats are not part of the model.
\<close>

datatype pyval =
    PyNone
  | PyBool bool
  | PyInt int
  | PyStr string
  | PyTuple "pyval list"
  | PyList "pyval list"
  | PyDict "(pyval \<times> pyval) list"
  | PyFunc nat

text \<open>\<^verbatim>\<open>bool(v)\<close>: what \<^verbatim>\<open>if v\<close> and \<^verbatim>\<open>not v\<close> test.\<close>

fun truthy :: "pyval \<Rightarrow> bool" where
  "truthy PyNone = False"
| "truthy (PyBool b) = b"
| "truthy (PyInt n) = (n \<noteq> 0)"
| "truthy (PyStr s) = (s \<noteq> [])"
| "truthy (PyTuple vs) = (vs \<noteq> [])"
| "truthy (PyList vs) = (vs \<noteq> [])"
| "truthy (PyDict kvs) = (kvs \<noteq> [])"
| "truthy (PyFunc f) = True"

text \<open>
  The integer an \<^verbatim>\<open>int\<close> instance stands for. In Python \<^verbatim>\<open>bool\<close> is a subclass of
  \<^verbatim>\<open>int\<close>: \<^verbatim>\<open>isinstance(True, int)\<close> holds and \<^verbatim>\<open>True == 1\<close>, \<^verbatim>\<open>False == 0\<close>.
\<close>

fun py_int :: "pyval \<Rightarrow> int option" where
  "py_int (PyInt n) = Some n"
| "py_int (PyBool b) = Some (if b then 1 else 0)"
| "py_int _ = None"

definition isinstance_int :: "pyval \<Rightarrow> bool" where
  "isinstance_int v = (py_int v \<noteq> None)"

fun isinstance_dict :: "pyval \<Rightarrow> bool" where
  "isinstance_dict (PyDict kvs) = True"
| "isinstance_dict _ = False"

fun isinstance_tuple :: "pyval \<Rightarrow> bool" where
  "isinstance_tuple (PyTuple vs) = True"
| "isinstance_tuple _ = False"

fun callable :: "pyval \<Rightarrow> bool" where
  "callable (PyFunc f) = True"
| "callable _ = False"

section \<open>Errors\<close>

text \<open>
  Every \<^verbatim>\<open>raise\<close> of the adapter is a \<^verbatim>\<open>ValueError\<close> or a \<^verbatim>\<open>NotImplementedError\<close>
  carrying a message. \<open>VendorError\<close> stands for whatever the vendor library raises
  itself; the adapter never catches it.
\<close>

datatype error =
    ValueError string
  | NotImplementedError string
  | VendorError

section \<open>The vendor library\<close>

text \<open>
  The fields of a device information object that the adapter reads.
\<close>

record device_info =
  dev_type :: int
  physicalLayout :: int

datatype led_color = CorsairLedColor (ledId: pyval) (red: pyval) (green: pyval) (blue: pyval)

text \<open>
  The loaded library (\<^verbatim>\<open>self.library\<close>): the connected devices in enumeration order,
  the device index the binding uses when \<^verbatim>\<open>get_device_info\<close> is called without one,
  the library's answer to a batch of LED colours, and the batches submitted so far.
\<close>

record sdk =
  devices :: "device_info list"
  default_device_id :: nat
  set_led_colors_result :: "led_color list \<Rightarrow> error + bool"
  submitted :: "led_color list list"

definition get_device_count :: "sdk \<Rightarrow> nat" where
  "get_device_count lib = length (devices lib)"

text \<open>
  \<^verbatim>\<open>get_device_info(i)\<close> is \<open>get_device_info lib (Some i)\<close>, \<^verbatim>\<open>get_device_info()\<close> is
  \<open>get_device_info lib None\<close>. An index with no device is the library's own failure.
\<close>

definition get_device_info :: "sdk \<Rightarrow> nat option \<Rightarrow> error + device_info" where
  "get_device_info lib device_id =
     (let i = (case device_id of None \<Rightarrow> default_device_id lib | Some k \<Rightarrow> k)
      in if i < length (devices lib) then Inr (devices lib ! i) else Inl VendorError)"

definition set_led_colors :: "led_color list \<Rightarrow> sdk \<Rightarrow> (error + bool) \<times> sdk" where
  "set_led_colors batch lib =
     (set_led_colors_result lib batch, lib\<lparr>submitted := submitted lib @ [batch]\<rparr>)"

section \<open>get\_layout\<close>

text \<open>
  The loop of \<^verbatim>\<open>get_layout\<close> over the indices still to visit. At the first device of
  type 2 it stores \<^verbatim>\<open>self.library.get_device_info()\<close>, called without the index, and
  breaks. The result is \<open>None\<close> when the loop ends without a hit; a device information
  object is truthy, so \<^verbatim>\<open>not results\<close> holds exactly then.
\<close>

fun get_layout_loop :: "sdk \<Rightarrow> nat list \<Rightarrow> error + device_info option" where
  "get_layout_loop lib [] = Inr None"
| "get_layout_loop lib (i # rest) =
     (case get_device_info lib (Some i) of
        Inl e \<Rightarrow> Inl e
      | Inr d \<Rightarrow>
          if dev_type d = 2 then
            (case get_device_info lib None of
               Inl e \<Rightarrow> Inl e
             | Inr results \<Rightarrow> Inr (Some results))
          else get_layout_loop lib rest)"

definition get_layout :: "sdk \<Rightarrow> error + int" where
  "get_layout lib =
     (case get_layout_loop lib [0 ..< get_device_count lib] of
        Inl e \<Rightarrow> Inl e
      | Inr None \<Rightarrow> Inl (ValueError ''Could not detect a Corsair keyboard'')
      | Inr (Some results) \<Rightarrow> Inr (physicalLayout results))"

section \<open>The key-name table\<close>

text \<open>
  The module-level dictionary \<^verbatim>\<open>keys\<close> (imported from \<^verbatim>\<open>.keys\<close>) maps a key name to
  the vendor's LED identifier. Its contents are a parameter of the model: an association
  list in the dictionary's order, with an arbitrary Python value as identifier.
\<close>

type_synonym key_table = "(string \<times> pyval) list"

text \<open>\<^verbatim>\<open>keys.values()\<close>\<close>

definition keys_values :: "key_table \<Rightarrow> pyval list" where
  "keys_values keys = map snd keys"

text \<open>
  Looking a Python value up in the table: \<open>None\<close> is \<^verbatim>\<open>key not in keys\<close>, \<open>Some led\<close>
  gives \<^verbatim>\<open>keys[key]\<close>. Only a string can equal a key name.
\<close>

fun keys_get :: "key_table \<Rightarrow> pyval \<Rightarrow> pyval option" where
  "keys_get keys (PyStr name) = map_of keys name"
| "keys_get keys _ = None"

section \<open>set\_full\_led\_color\<close>

text \<open>The chained comparison \<^verbatim>\<open>0 < v < 255\<close> on an \<^verbatim>\<open>int\<close> instance.\<close>

definition in_range :: "pyval \<Rightarrow> bool" where
  "in_range v = (case py_int v of None \<Rightarrow> False | Some n \<Rightarrow> 0 < n \<and> n < 255)"

definition set_full_led_color ::
  "key_table \<Rightarrow> pyval \<Rightarrow> pyval \<Rightarrow> pyval \<Rightarrow> sdk \<Rightarrow> (error + bool) \<times> sdk" where
  "set_full_led_color keys r g b lib =
     (if \<not> isinstance_int r \<or> \<not> isinstance_int g \<or> \<not> isinstance_int b then
        (Inl (ValueError ''Parameters passed not all int type''), lib)
      else if \<not> in_range r \<or> \<not> in_range g \<or> \<not> in_range b then
        (Inl (ValueError ''Parameters not within range''), lib)
      else set_led_colors (map (\<lambda>i. CorsairLedColor i r g b) (keys_values keys)) lib)"

section \<open>set\_ind\_led\_color\<close>

fun dict_items :: "pyval \<Rightarrow> (pyval \<times> pyval) list" where
  "dict_items (PyDict kvs) = kvs"
| "dict_items _ = []"

fun tuple_items :: "pyval \<Rightarrow> pyval list" where
  "tuple_items (PyTuple vs) = vs"
| "tuple_items _ = []"

text \<open>
  The loop over \<^verbatim>\<open>leds.items()\<close>, with the list \<^verbatim>\<open>parameter\<close> built so far. The
  checks come in the source's order; an entry whose identifier is falsy is skipped
  after its value has been checked.
\<close>

fun ind_led_loop ::
  "key_table \<Rightarrow> (pyval \<times> pyval) list \<Rightarrow> led_color list \<Rightarrow> error + led_color list" where
  "ind_led_loop keys [] parameter = Inr parameter"
| "ind_led_loop keys ((key, val) # items) parameter =
     (case keys_get keys key of
        None \<Rightarrow> Inl (ValueError ''Invalid key found'')
      | Some led \<Rightarrow>
          if \<not> isinstance_tuple val then Inl (ValueError ''Value found for key not tuple'')
          else if \<not> length (tuple_items val) = 3 then
            Inl (ValueError ''Value found for key not with length 3'')
          else if \<not> truthy led then ind_led_loop keys items parameter
          else ind_led_loop keys items
                 (parameter @ [CorsairLedColor led (tuple_items val ! 0)
                                 (tuple_items val ! 1) (tuple_items val ! 2)]))"

definition set_ind_led_color :: "key_table \<Rightarrow> pyval \<Rightarrow> sdk \<Rightarrow> (error + bool) \<times> sdk" where
  "set_ind_led_color keys leds lib =
     (if \<not> isinstance_dict leds then
        (Inl (ValueError ''Parameter leds is not a dictionary''), lib)
      else
        (case ind_led_loop keys (dict_items leds) [] of
           Inl e \<Rightarrow> (Inl e, lib)
         | Inr parameter \<Rightarrow> set_led_colors parameter lib))"

section \<open>The keypress listener\<close>

text \<open>
  A listener of the input-hook facility is a thread. The model keeps what the adapter
  can observe: the callback it was built with, whether \<^verbatim>\<open>start()\<close> and \<^verbatim>\<open>stop()\<close> were
  called, and the thread's liveness. The thread runs on its own schedule, so the answer
  it gives to the \<open>n\<close>-th \<^verbatim>\<open>is_alive()\<close> query is a parameter, \<open>liveness l n\<close>; a
  thread that was never started is not alive. \<open>polls\<close> counts the queries made. What
  the facility raises itself is outside the adapter and not part of the model.
\<close>

record kb_listener =
  on_press :: pyval
  started :: bool
  stop_signalled :: bool
  liveness :: "nat \<Rightarrow> bool"
  polls :: nat

definition kb_Listener :: "(nat \<Rightarrow> bool) \<Rightarrow> pyval \<Rightarrow> kb_listener" where
  "kb_Listener env cb =
     \<lparr>on_press = cb, started = False, stop_signalled = False, liveness = env, polls = 0\<rparr>"

definition listener_start :: "kb_listener \<Rightarrow> kb_listener" where
  "listener_start l = l\<lparr>started := True\<rparr>"

definition listener_stop :: "kb_listener \<Rightarrow> kb_listener" where
  "listener_stop l = l\<lparr>stop_signalled := True\<rparr>"

definition is_alive :: "kb_listener \<Rightarrow> bool \<times> kb_listener" where
  "is_alive l = (started l \<and> liveness l (polls l), l\<lparr>polls := Suc (polls l)\<rparr>)"

text \<open>
  \<^verbatim>\<open>while self._listener.is_alive(): pass\<close>. The loop has no bound: \<open>None\<close> is the
  call that never returns.
\<close>

partial_function (option) busy_wait :: "kb_listener \<Rightarrow> kb_listener option" where
  "busy_wait l =
     (if fst (is_alive l) then busy_wait (snd (is_alive l)) else Some (snd (is_alive l)))"

section \<open>The adapter's callback state\<close>

record corsair =
  library :: sdk
  callback :: pyval
  listener :: "kb_listener option"

text \<open>The state \<^verbatim>\<open>__init__\<close> leaves, once the library is loaded.\<close>

definition Corsair :: "sdk \<Rightarrow> corsair" where
  "Corsair lib = \<lparr>library = lib, callback = PyNone, listener = None\<rparr>"

text \<open>
  \<open>env\<close> is the liveness behaviour of the listener thread that the call creates.
\<close>

definition set_key_callback ::
  "(nat \<Rightarrow> bool) \<Rightarrow> pyval \<Rightarrow> corsair \<Rightarrow> (error + unit) \<times> corsair" where
  "set_key_callback env cb self =
     (if \<not> callable cb then (Inl (ValueError ''Parameter callback passed not callable''), self)
      else (Inr (), self\<lparr>callback := cb, listener := Some (kb_Listener env cb)\<rparr>))"

definition enable_key_callback ::
  "pyval \<Rightarrow> corsair \<Rightarrow> ((error + unit) \<times> corsair) option" where
  "enable_key_callback enable self =
     (if \<not> truthy (callback self) \<or> \<not> callable (callback self) then
        Some (Inl (ValueError ''Callback not set. Please use set_key_callback''), self)
      else
        (case listener self of
           None \<Rightarrow> Some (Inl (ValueError ''Callback set but listener not found''), self)
         | Some l \<Rightarrow>
             if truthy enable then
               Some (Inr (), self\<lparr>listener := Some (listener_start l)\<rparr>)
             else
               (case busy_wait (listener_stop l) of
                  None \<Rightarrow> None
                | Some l' \<Rightarrow> Some (Inr (), self\<lparr>listener := Some l'\<rparr>))))"

section \<open>Properties of get\_layout\<close>

lemma get_device_info_index:
  "i < length (devices lib) \<Longrightarrow> get_device_info lib (Some i) = Inr (devices lib ! i)"
  by (simp add: get_device_info_def)

lemma get_layout_loop_no_keyboard:
  "\<forall>i\<in>set idxs. i < length (devices lib) \<and> dev_type (devices lib ! i) \<noteq> 2
   \<Longrightarrow> get_layout_loop lib idxs = Inr None"
  by (induction idxs) (simp_all add: get_device_info_index)

lemma get_layout_loop_keyboard:
  "\<forall>i\<in>set idxs. i < length (devices lib)
   \<Longrightarrow> \<exists>i\<in>set idxs. dev_type (devices lib ! i) = 2
   \<Longrightarrow> get_layout_loop lib idxs =
       (case get_device_info lib None of Inl e \<Rightarrow> Inl e | Inr results \<Rightarrow> Inr (Some results))"
  by (induction idxs) (auto simp add: get_device_info_index)

text \<open>
  Whenever a keyboard is connected, the layout returned is that of the device at the
  library's default index, whichever device the loop stopped at.
\<close>

lemma get_layout_default_device:
  assumes "\<exists>d\<in>set (devices lib). dev_type d = 2"
    and "default_device_id lib < length (devices lib)"
  shows "get_layout lib = Inr (physicalLayout (devices lib ! default_device_id lib))"
proof -
  from assms(1) obtain i where "i < length (devices lib)" "dev_type (devices lib ! i) = 2"
    by (auto simp add: in_set_conv_nth)
  then have "\<exists>i\<in>set [0 ..< length (devices lib)]. dev_type (devices lib ! i) = 2"
    by auto
  then have "get_layout_loop lib [0 ..< length (devices lib)] =
      (case get_device_info lib None of Inl e \<Rightarrow> Inl e | Inr results \<Rightarrow> Inr (Some results))"
    by (intro get_layout_loop_keyboard) auto
  with assms(2) show ?thesis
    by (simp add: get_layout_def get_device_count_def get_device_info_def)
qed

text \<open>
  Claim C1. With a keyboard among the connected devices, \<^verbatim>\<open>get_layout\<close> should return
  the physical layout of the first keyboard. Here a mouse (type 1, layout 1) is enumerated
  before the keyboard (type 2, layout 2) and the library's default device index is 0: the
  loop stops at the keyboard, but \<^verbatim>\<open>get_device_info()\<close> is called without the index,
  so the layout returned is the mouse's.
\<close>

theorem get_layout_mouse_before_keyboard:
  "get_layout \<lparr>devices = [\<lparr>dev_type = 1, physicalLayout = 1\<rparr>,
                          \<lparr>dev_type = 2, physicalLayout = 2\<rparr>],
               default_device_id = 0,
               set_led_colors_result = (\<lambda>batch. Inr True),
               submitted = []\<rparr> = Inr 1"
  by (simp add: get_layout_def get_device_count_def get_device_info_def upt_rec)

text \<open>
  Claim C2. When no connected device has the keyboard type (2), \<^verbatim>\<open>get_layout\<close> fails
  with the \<^verbatim>\<open>ValueError\<close> "Could not detect a Corsair keyboard", the error the
  specification calls NotFoundError.
\<close>

theorem get_layout_no_keyboard:
  "\<forall>d\<in>set (devices lib). dev_type d \<noteq> 2
   \<Longrightarrow> get_layout lib = Inl (ValueError ''Could not detect a Corsair keyboard'')"
proof -
  assume "\<forall>d\<in>set (devices lib). dev_type d \<noteq> 2"
  then have "get_layout_loop lib [0 ..< length (devices lib)] = Inr None"
    by (intro get_layout_loop_no_keyboard) auto
  then show ?thesis
    by (simp add: get_layout_def get_device_count_def)
qed

theorem get_layout_no_keyboard_witness:
  "dev_type \<lparr>dev_type = 1, physicalLayout = 4\<rparr> \<noteq> 2
   \<and> dev_type \<lparr>dev_type = 3, physicalLayout = 0\<rparr> \<noteq> 2
   \<and> get_layout \<lparr>devices = [\<lparr>dev_type = 1, physicalLayout = 4\<rparr>,
                            \<lparr>dev_type = 3, physicalLayout = 0\<rparr>],
                 default_device_id = 0,
                 set_led_colors_result = (\<lambda>batch. Inr True),
                 submitted = []\<rparr>
     = Inl (ValueError ''Could not detect a Corsair keyboard'')"
  using get_layout_no_keyboard
    [of "\<lparr>devices = [\<lparr>dev_type = 1, physicalLayout = 4\<rparr>,
                      \<lparr>dev_type = 3, physicalLayout = 0\<rparr>],
           default_device_id = 0,
           set_led_colors_result = (\<lambda>batch. Inr True),
           submitted = []\<rparr>"]
  by simp

section \<open>Properties of set\_full\_led\_color\<close>

text \<open>
  Claim C3. When one of \<^verbatim>\<open>r\<close>, \<^verbatim>\<open>g\<close>, \<^verbatim>\<open>b\<close> is not an \<^verbatim>\<open>int\<close> instance, or
  equals 0 or 255, \<^verbatim>\<open>set_full_led_color\<close> raises one of its two \<^verbatim>\<open>ValueError\<close>s and
  the library is left as it was: no batch is submitted. (As in Python, a boolean is an
  \<^verbatim>\<open>int\<close> instance, and \<^verbatim>\<open>False\<close> equals 0.)
\<close>

theorem set_full_led_color_rejects_boundary:
  assumes "\<not> isinstance_int r \<or> \<not> isinstance_int g \<or> \<not> isinstance_int b
           \<or> py_int r = Some 0 \<or> py_int r = Some 255
           \<or> py_int g = Some 0 \<or> py_int g = Some 255
           \<or> py_int b = Some 0 \<or> py_int b = Some 255"
  shows "set_full_led_color keys r g b lib =
           (Inl (ValueError ''Parameters passed not all int type''), lib)
       \<or> set_full_led_color keys r g b lib =
           (Inl (ValueError ''Parameters not within range''), lib)"
  using assms by (auto simp add: set_full_led_color_def in_range_def)

theorem set_full_led_color_rejects_boundary_witness:
  "py_int (PyInt 0) = Some 0
   \<and> set_full_led_color [(''Escape'', PyInt 1)] (PyInt 0) (PyInt 7) (PyInt 7)
        \<lparr>devices = [], default_device_id = 0,
         set_led_colors_result = (\<lambda>batch. Inr True), submitted = []\<rparr>
      = (Inl (ValueError ''Parameters not within range''),
         \<lparr>devices = [], default_device_id = 0,
          set_led_colors_result = (\<lambda>batch. Inr True), submitted = []\<rparr>)
   \<and> py_int (PyInt 255) = Some 255
   \<and> set_full_led_color [(''Escape'', PyInt 1)] (PyInt 7) (PyInt 7) (PyInt 255)
        \<lparr>devices = [], default_device_id = 0,
         set_led_colors_result = (\<lambda>batch. Inr True), submitted = []\<rparr>
      = (Inl (ValueError ''Parameters not within range''),
         \<lparr>devices = [], default_device_id = 0,
          set_led_colors_result = (\<lambda>batch. Inr True), submitted = []\<rparr>)
   \<and> \<not> isinstance_int (PyStr ''7'')
   \<and> set_full_led_color [(''Escape'', PyInt 1)] (PyInt 7) (PyStr ''7'') (PyInt 7)
        \<lparr>devices = [], default_device_id = 0,
         set_led_colors_result = (\<lambda>batch. Inr True), submitted = []\<rparr>
      = (Inl (ValueError ''Parameters passed not all int type''),
         \<lparr>devices = [], default_device_id = 0,
          set_led_colors_result = (\<lambda>batch. Inr True), submitted = []\<rparr>)"
  using set_full_led_color_rejects_boundary
      [of "PyInt 0" "PyInt 7" "PyInt 7" "[(''Escape'', PyInt 1)]"
          "\<lparr>devices = [], default_device_id = 0,
            set_led_colors_result = (\<lambda>batch. Inr True), submitted = []\<rparr>"]
    set_full_led_color_rejects_boundary
      [of "PyInt 7" "PyInt 7" "PyInt 255" "[(''Escape'', PyInt 1)]"
          "\<lparr>devices = [], default_device_id = 0,
            set_led_colors_result = (\<lambda>batch. Inr True), submitted = []\<rparr>"]
    set_full_led_color_rejects_boundary
      [of "PyInt 7" "PyStr ''7''" "PyInt 7" "[(''Escape'', PyInt 1)]"
          "\<lparr>devices = [], default_device_id = 0,
            set_led_colors_result = (\<lambda>batch. Inr True), submitted = []\<rparr>"]
  by (simp add: set_full_led_color_def isinstance_int_def in_range_def)

text \<open>
  Claim C4. For integers \<^verbatim>\<open>r\<close>, \<^verbatim>\<open>g\<close>, \<^verbatim>\<open>b\<close> between 1 and 254,
  \<^verbatim>\<open>set_full_led_color\<close> submits one batch to the library: one colour entry for each
  entry of the key-name table, in the table's order, carrying that entry's LED identifier
  and \<^verbatim>\<open>(r, g, b)\<close>. The call returns the library's answer to that batch.
\<close>

theorem set_full_led_color_submits_all_keys:
  assumes "1 \<le> r \<and> r \<le> 254" and "1 \<le> g \<and> g \<le> 254" and "1 \<le> b \<and> b \<le> 254"
  shows "set_full_led_color keys (PyInt r) (PyInt g) (PyInt b) lib =
      (set_led_colors_result lib
         (map (\<lambda>led. CorsairLedColor led (PyInt r) (PyInt g) (PyInt b)) (map snd keys)),
       lib\<lparr>submitted := submitted lib @
         [map (\<lambda>led. CorsairLedColor led (PyInt r) (PyInt g) (PyInt b)) (map snd keys)]\<rparr>)"
  using assms
  by (simp add: set_full_led_color_def in_range_def isinstance_int_def set_led_colors_def
      keys_values_def)

theorem set_full_led_color_submits_all_keys_witness:
  "(1::int) \<le> 1 \<and> (1::int) \<le> 254 \<and> (1::int) \<le> 128 \<and> (128::int) \<le> 254 \<and> (254::int) \<le> 254
   \<and> set_full_led_color [(''Escape'', PyInt 1), (''F1'', PyInt 2)]
        (PyInt 1) (PyInt 128) (PyInt 254)
        \<lparr>devices = [], default_device_id = 0,
         set_led_colors_result = (\<lambda>batch. Inr True), submitted = []\<rparr>
      = (Inr True,
         \<lparr>devices = [], default_device_id = 0,
          set_led_colors_result = (\<lambda>batch. Inr True),
          submitted = [[CorsairLedColor (PyInt 1) (PyInt 1) (PyInt 128) (PyInt 254),
                        CorsairLedColor (PyInt 2) (PyInt 1) (PyInt 128) (PyInt 254)]]\<rparr>)"
  using set_full_led_color_submits_all_keys
      [of 1 128 254 "[(''Escape'', PyInt 1), (''F1'', PyInt 2)]"
          "\<lparr>devices = [], default_device_id = 0,
            set_led_colors_result = (\<lambda>batch. Inr True), submitted = []\<rparr>"]
  by simp

section \<open>Properties of set\_ind\_led\_color\<close>

lemma ind_led_loop_unknown_key:
  "\<exists>(k, v)\<in>set items. keys_get keys k = None \<Longrightarrow>
    ind_led_loop keys items parameter \<in>
      {Inl (ValueError ''Invalid key found''),
       Inl (ValueError ''Value found for key not tuple''),
       Inl (ValueError ''Value found for key not with length 3'')}"
proof (induction items arbitrary: parameter)
  case Nil
  then show ?case by simp
next
  case (Cons kv items)
  obtain k v where kv: "kv = (k, v)" by (cases kv)
  show ?case
  proof (cases "keys_get keys k")
    case None
    then show ?thesis by (simp add: kv)
  next
    case (Some led)
    with Cons.prems kv have "\<exists>(k, v)\<in>set items. keys_get keys k = None" by auto
    then have "\<And>p. ind_led_loop keys items p \<in>
      {Inl (ValueError ''Invalid key found''),
       Inl (ValueError ''Value found for key not tuple''),
       Inl (ValueError ''Value found for key not with length 3'')}"
      by (rule Cons.IH)
    then show ?thesis using Some by (simp add: kv)
  qed
qed

lemma ind_led_loop_all_falsy:
  "\<forall>(k, v)\<in>set items. (\<exists>led. keys_get keys k = Some led \<and> \<not> truthy led)
                        \<and> (\<exists>r g b. v = PyTuple [r, g, b])
   \<Longrightarrow> ind_led_loop keys items parameter = Inr parameter"
  by (induction items arbitrary: parameter) auto

text \<open>
  Claim C5. When some key of the mapping is not in the key-name table,
  \<^verbatim>\<open>set_ind_led_color\<close> raises a \<^verbatim>\<open>ValueError\<close> (the one of the first entry that
  fails a check) and the library is left as it was: nothing is submitted, whatever valid
  entries came before.
\<close>

theorem set_ind_led_color_unknown_key:
  assumes "\<exists>(k, v)\<in>set items. keys_get keys k = None"
  shows "\<exists>msg\<in>{''Invalid key found'', ''Value found for key not tuple'',
                ''Value found for key not with length 3''}.
           set_ind_led_color keys (PyDict items) lib = (Inl (ValueError msg), lib)"
  using ind_led_loop_unknown_key [OF assms, of "[]"]
  by (auto simp add: set_ind_led_color_def)

theorem set_ind_led_color_unknown_key_witness:
  "(\<exists>(k, v)\<in>set [(PyStr ''Escape'', PyTuple [PyInt 1, PyInt 2, PyInt 3]),
                  (PyStr ''Nope'', PyTuple [PyInt 1, PyInt 2, PyInt 3])].
      keys_get [(''Escape'', PyInt 1)] k = None)
   \<and> set_ind_led_color [(''Escape'', PyInt 1)]
        (PyDict [(PyStr ''Escape'', PyTuple [PyInt 1, PyInt 2, PyInt 3]),
                 (PyStr ''Nope'', PyTuple [PyInt 1, PyInt 2, PyInt 3])])
        \<lparr>devices = [], default_device_id = 0,
          set_led_colors_result = (\<lambda>batch. Inr True), submitted = []\<rparr>
      = (Inl (ValueError ''Invalid key found''),
         \<lparr>devices = [], default_device_id = 0,
          set_led_colors_result = (\<lambda>batch. Inr True), submitted = []\<rparr>)"
  using set_ind_led_color_unknown_key
      [of "[(PyStr ''Escape'', PyTuple [PyInt 1, PyInt 2, PyInt 3]),
            (PyStr ''Nope'', PyTuple [PyInt 1, PyInt 2, PyInt 3])]"
          "[(''Escape'', PyInt 1)]"
          "\<lparr>devices = [], default_device_id = 0,
          set_led_colors_result = (\<lambda>batch. Inr True), submitted = []\<rparr>"]
  by (simp add: set_ind_led_color_def)

text \<open>
  Claim C6. When every key of the mapping is in the key-name table with a falsy LED
  identifier and every value is a 3-tuple, \<^verbatim>\<open>set_ind_led_color\<close> raises nothing itself:
  it submits the empty batch and returns what the library answers to it.
\<close>

theorem set_ind_led_color_all_falsy:
  assumes "\<forall>(k, v)\<in>set items. (\<exists>led. keys_get keys k = Some led \<and> \<not> truthy led)
                                \<and> (\<exists>r g b. v = PyTuple [r, g, b])"
  shows "set_ind_led_color keys (PyDict items) lib =
           (set_led_colors_result lib [], lib\<lparr>submitted := submitted lib @ [[]]\<rparr>)"
  using ind_led_loop_all_falsy [OF assms, of "[]"]
  by (simp add: set_ind_led_color_def set_led_colors_def)

theorem set_ind_led_color_all_falsy_witness:
  "keys_get [(''Fn'', PyInt 0), (''Escape'', PyInt 1)] (PyStr ''Fn'') = Some (PyInt 0)
   \<and> \<not> truthy (PyInt 0)
   \<and> set_ind_led_color [(''Fn'', PyInt 0), (''Escape'', PyInt 1)]
        (PyDict [(PyStr ''Fn'', PyTuple [PyInt 1, PyInt 2, PyInt 3])])
        \<lparr>devices = [], default_device_id = 0,
          set_led_colors_result = (\<lambda>batch. Inr True), submitted = []\<rparr>
      = (Inr True,
         \<lparr>devices = [], default_device_id = 0,
          set_led_colors_result = (\<lambda>batch. Inr True), submitted = [[]]\<rparr>)"
  using set_ind_led_color_all_falsy
      [of "[(PyStr ''Fn'', PyTuple [PyInt 1, PyInt 2, PyInt 3])]"
          "[(''Fn'', PyInt 0), (''Escape'', PyInt 1)]"
          "\<lparr>devices = [], default_device_id = 0,
          set_led_colors_result = (\<lambda>batch. Inr True), submitted = []\<rparr>"]
  by simp

text \<open>
  Claim C10. When the argument is not a dictionary, \<^verbatim>\<open>set_ind_led_color\<close> raises the
  \<^verbatim>\<open>ValueError\<close> "Parameter leds is not a dictionary" and the library is left as it
  was: nothing is submitted.
\<close>

theorem set_ind_led_color_not_dict:
  "\<not> isinstance_dict leds \<Longrightarrow>
     set_ind_led_color keys leds lib =
       (Inl (ValueError ''Parameter leds is not a dictionary''), lib)"
  by (simp add: set_ind_led_color_def)

theorem set_ind_led_color_not_dict_witness:
  "\<not> isinstance_dict (PyList [PyTuple [PyStr ''Escape'', PyInt 1, PyInt 2, PyInt 3]])
   \<and> set_ind_led_color [(''Escape'', PyInt 1)]
        (PyList [PyTuple [PyStr ''Escape'', PyInt 1, PyInt 2, PyInt 3]])
        \<lparr>devices = [], default_device_id = 0,
          set_led_colors_result = (\<lambda>batch. Inr True), submitted = []\<rparr>
      = (Inl (ValueError ''Parameter leds is not a dictionary''),
         \<lparr>devices = [], default_device_id = 0,
          set_led_colors_result = (\<lambda>batch. Inr True), submitted = []\<rparr>)"
  using set_ind_led_color_not_dict
      [of "PyList [PyTuple [PyStr ''Escape'', PyInt 1, PyInt 2, PyInt 3]]"
          "[(''Escape'', PyInt 1)]"
          "\<lparr>devices = [], default_device_id = 0,
          set_led_colors_result = (\<lambda>batch. Inr True), submitted = []\<rparr>"]
  by simp

section \<open>Properties of the key callback\<close>

text \<open>
  Claim C7. When the argument is not callable, \<^verbatim>\<open>set_key_callback\<close> raises the
  \<^verbatim>\<open>ValueError\<close> "Parameter callback passed not callable" and the adapter is left as
  it was: the callback and the listener registered before, if any, are unchanged.
\<close>

theorem set_key_callback_not_callable:
  "\<not> callable cb \<Longrightarrow>
     set_key_callback env cb self =
       (Inl (ValueError ''Parameter callback passed not callable''), self)"
  by (simp add: set_key_callback_def)

theorem set_key_callback_not_callable_witness:
  "\<not> callable (PyStr ''on_press'')
   \<and> set_key_callback (\<lambda>n. n < 2) (PyStr ''on_press'')
        \<lparr>library = \<lparr>devices = [], default_device_id = 0,
          set_led_colors_result = (\<lambda>batch. Inr True), submitted = []\<rparr>,
         callback = PyFunc 0,
         listener = Some \<lparr>on_press = PyFunc 0, started = True, stop_signalled = False,
                          liveness = (\<lambda>n. True), polls = 0\<rparr>\<rparr>
      = (Inl (ValueError ''Parameter callback passed not callable''),
        \<lparr>library = \<lparr>devices = [], default_device_id = 0,
          set_led_colors_result = (\<lambda>batch. Inr True), submitted = []\<rparr>,
         callback = PyFunc 0,
         listener = Some \<lparr>on_press = PyFunc 0, started = True, stop_signalled = False,
                          liveness = (\<lambda>n. True), polls = 0\<rparr>\<rparr>)"
  using set_key_callback_not_callable
      [of "PyStr ''on_press''" "\<lambda>n. n < 2"
        "\<lparr>library = \<lparr>devices = [], default_device_id = 0,
          set_led_colors_result = (\<lambda>batch. Inr True), submitted = []\<rparr>,
         callback = PyFunc 0,
         listener = Some \<lparr>on_press = PyFunc 0, started = True, stop_signalled = False,
                          liveness = (\<lambda>n. True), polls = 0\<rparr>\<rparr>"]
  by simp

text \<open>
  Claim C9. In a state where no callback has been registered, that is, where
  \<^verbatim>\<open>_callback\<close> is still the \<^verbatim>\<open>None\<close> that \<^verbatim>\<open>__init__\<close> stored
  (\<^verbatim>\<open>set_key_callback\<close> is the only method that assigns it),
  \<^verbatim>\<open>enable_key_callback(True)\<close> raises the \<^verbatim>\<open>ValueError\<close> "Callback not set. Please
  use set\_key\_callback" and changes nothing.
\<close>

theorem enable_key_callback_unregistered:
  "callback self = PyNone \<Longrightarrow>
     enable_key_callback (PyBool True) self =
       Some (Inl (ValueError ''Callback not set. Please use set_key_callback''), self)"
  by (simp add: enable_key_callback_def)

theorem enable_key_callback_unregistered_witness:
  "callback (Corsair \<lparr>devices = [], default_device_id = 0,
          set_led_colors_result = (\<lambda>batch. Inr True), submitted = []\<rparr>) = PyNone
   \<and> enable_key_callback (PyBool True) (Corsair \<lparr>devices = [], default_device_id = 0,
          set_led_colors_result = (\<lambda>batch. Inr True), submitted = []\<rparr>) =
       Some (Inl (ValueError ''Callback not set. Please use set_key_callback''),
             Corsair \<lparr>devices = [], default_device_id = 0,
          set_led_colors_result = (\<lambda>batch. Inr True), submitted = []\<rparr>)"
  using enable_key_callback_unregistered [of "Corsair \<lparr>devices = [], default_device_id = 0,
          set_led_colors_result = (\<lambda>batch. Inr True), submitted = []\<rparr>"]
  by (simp add: Corsair_def)

section \<open>Disabling the key callback\<close>

text \<open>
  The busy-wait returns after the first query that the thread answers with "not alive":
  \<open>n\<close> queries answered "alive", then one answered otherwise.
\<close>

lemma busy_wait_steps:
  "started l \<Longrightarrow> \<not> liveness l (polls l + n) \<Longrightarrow> \<forall>k<n. liveness l (polls l + k)
   \<Longrightarrow> busy_wait l = Some (l\<lparr>polls := Suc (polls l + n)\<rparr>)"
proof (induction n arbitrary: l)
  case 0
  then show ?case by (subst busy_wait.simps) (simp add: is_alive_def)
next
  case (Suc n)
  let ?l' = "l\<lparr>polls := Suc (polls l)\<rparr>"
  from Suc.prems have alive: "liveness l (polls l)" by (metis add.right_neutral zero_less_Suc)
  have "busy_wait ?l' = Some (?l'\<lparr>polls := Suc (polls ?l' + n)\<rparr>)"
  proof (rule Suc.IH)
    show "started ?l'" using Suc.prems by simp
    show "\<not> liveness ?l' (polls ?l' + n)" using Suc.prems by simp
    show "\<forall>k<n. liveness ?l' (polls ?l' + k)"
    proof (intro allI impI)
      fix k assume "k < n"
      then have "Suc k < Suc n" by simp
      with Suc.prems(3) have "liveness l (polls l + Suc k)" by blast
      then show "liveness ?l' (polls ?l' + k)" by simp
    qed
  qed
  with alive Suc.prems(1) show ?case
    by (subst busy_wait.simps) (simp add: is_alive_def)
qed

lemma busy_wait_Some:
  assumes "busy_wait l = Some l'"
  shows "started l \<longrightarrow> (\<exists>n. \<not> liveness l (polls l + n))"
proof (rule busy_wait.raw_induct
    [where P = "\<lambda>l l'. started l \<longrightarrow> (\<exists>n. \<not> liveness l (polls l + n))"])
  show "busy_wait l = Some l'" by (rule assms)
next
  fix bw :: "kb_listener \<Rightarrow> kb_listener option" and l la
  assume IH: "\<And>x y. bw x = Some y \<Longrightarrow> started x \<longrightarrow> (\<exists>n. \<not> liveness x (polls x + n))"
    and eq: "(if fst (is_alive l) then bw (snd (is_alive l)) else Some (snd (is_alive l))) = Some la"
  show "started l \<longrightarrow> (\<exists>n. \<not> liveness l (polls l + n))"
  proof
    assume st: "started l"
    show "\<exists>n. \<not> liveness l (polls l + n)"
    proof (cases "liveness l (polls l)")
      case False
      then have "\<not> liveness l (polls l + 0)" by simp
      then show ?thesis by blast
    next
      case True
      let ?l' = "l\<lparr>polls := Suc (polls l)\<rparr>"
      from True st eq have "bw ?l' = Some la" by (simp add: is_alive_def)
      then have "started ?l' \<longrightarrow> (\<exists>n. \<not> liveness ?l' (polls ?l' + n))" by (rule IH)
      then obtain n where "\<not> liveness ?l' (polls ?l' + n)" using st by auto
      then have "\<not> liveness l (polls l + Suc n)" by simp
      then show ?thesis by blast
    qed
  qed
qed

lemma busy_wait_never:
  "started l \<Longrightarrow> \<forall>k. liveness l (polls l + k) \<Longrightarrow> busy_wait l = None"
  using busy_wait_Some [of l] by (cases "busy_wait l") auto

lemma callable_truthy: "callable v \<Longrightarrow> truthy v"
  by (cases v) simp_all

lemma busy_wait_result:
  assumes "busy_wait l = Some l'" and "started l"
  shows "\<exists>n. (\<forall>k<n. liveness l (polls l + k)) \<and> \<not> liveness l (polls l + n)
             \<and> l' = l\<lparr>polls := Suc (polls l + n)\<rparr>"
proof -
  from assms busy_wait_Some [of l l'] obtain m where m: "\<not> liveness l (polls l + m)"
    by blast
  define n where "n = (LEAST m. \<not> liveness l (polls l + m))"
  have dead: "\<not> liveness l (polls l + n)"
    unfolding n_def using m by (rule LeastI)
  have alive: "\<forall>k<n. liveness l (polls l + k)"
    unfolding n_def using not_less_Least by blast
  from assms(2) dead alive have "busy_wait l = Some (l\<lparr>polls := Suc (polls l + n)\<rparr>)"
    by (rule busy_wait_steps)
  with assms(1) have "l' = l\<lparr>polls := Suc (polls l + n)\<rparr>" by simp
  with dead alive show ?thesis by blast
qed

lemma enable_key_callback_disable:
  assumes "callable (callback self)" and "listener self = Some l"
  shows "enable_key_callback (PyBool False) self =
     (case busy_wait (listener_stop l) of
        None \<Rightarrow> None
      | Some l' \<Rightarrow> Some (Inr (), self\<lparr>listener := Some l'\<rparr>))"
  using assms by (simp add: enable_key_callback_def callable_truthy)

text \<open>
  Claim C8. In the Running state (a callback is registered and its listener has been
  started), \<^verbatim>\<open>enable_key_callback(False)\<close> signals the listener to stop and polls
  \<^verbatim>\<open>is_alive()\<close>. As long as every query is answered "alive" the call does not return;
  when it returns, the last query it made was answered "not alive" and every query before
  that one was answered "alive".
\<close>

theorem enable_key_callback_false_blocks:
  assumes "callable (callback self)" and "listener self = Some l" and "started l"
  shows "((\<forall>n. liveness l (polls l + n)) \<longrightarrow> enable_key_callback (PyBool False) self = None)
       \<and> (\<forall>res self'. enable_key_callback (PyBool False) self = Some (res, self') \<longrightarrow>
            (\<exists>n. (\<forall>k<n. liveness l (polls l + k)) \<and> \<not> liveness l (polls l + n)
               \<and> res = Inr ()
               \<and> self' = self\<lparr>listener :=
                    Some (l\<lparr>stop_signalled := True, polls := Suc (polls l + n)\<rparr>)\<rparr>))"
proof (intro conjI allI impI)
  assume "\<forall>n. liveness l (polls l + n)"
  with assms(3) have "busy_wait (listener_stop l) = None"
    by (intro busy_wait_never) (simp_all add: listener_stop_def)
  with assms(1,2) show "enable_key_callback (PyBool False) self = None"
    by (simp add: enable_key_callback_disable)
next
  fix res self'
  assume ret: "enable_key_callback (PyBool False) self = Some (res, self')"
  with assms(1,2) obtain l' where l': "busy_wait (listener_stop l) = Some l'"
    and res: "res = Inr ()" and self': "self' = self\<lparr>listener := Some l'\<rparr>"
    by (auto simp add: enable_key_callback_disable split: option.splits)
  from l' assms(3) obtain n where "\<forall>k<n. liveness l (polls l + k)" "\<not> liveness l (polls l + n)"
    "l' = (listener_stop l)\<lparr>polls := Suc (polls l + n)\<rparr>"
    using busy_wait_result [of "listener_stop l" l'] by (auto simp add: listener_stop_def)
  with res self' show "\<exists>n. (\<forall>k<n. liveness l (polls l + k)) \<and> \<not> liveness l (polls l + n)
               \<and> res = Inr ()
               \<and> self' = self\<lparr>listener :=
                    Some (l\<lparr>stop_signalled := True, polls := Suc (polls l + n)\<rparr>)\<rparr>"
    by (auto simp add: listener_stop_def)
qed

theorem enable_key_callback_false_blocks_witness:
  "enable_key_callback (PyBool False)
     \<lparr>library = \<lparr>devices = [], default_device_id = 0,
                 set_led_colors_result = (\<lambda>batch. Inr True), submitted = []\<rparr>,
      callback = PyFunc 0,
      listener = Some \<lparr>on_press = PyFunc 0, started = True, stop_signalled = False,
                       liveness = (\<lambda>n. True), polls = 0\<rparr>\<rparr> = None
   \<and> enable_key_callback (PyBool False)
     \<lparr>library = \<lparr>devices = [], default_device_id = 0,
                 set_led_colors_result = (\<lambda>batch. Inr True), submitted = []\<rparr>,
      callback = PyFunc 0,
      listener = Some \<lparr>on_press = PyFunc 0, started = True, stop_signalled = False,
                       liveness = (\<lambda>n. n < 2), polls = 0\<rparr>\<rparr>
     = Some (Inr (),
     \<lparr>library = \<lparr>devices = [], default_device_id = 0,
                 set_led_colors_result = (\<lambda>batch. Inr True), submitted = []\<rparr>,
      callback = PyFunc 0,
      listener = Some \<lparr>on_press = PyFunc 0, started = True, stop_signalled = True,
                       liveness = (\<lambda>n. n < 2), polls = 3\<rparr>\<rparr>)
   \<and> (\<exists>n. (\<forall>k<n. k < (2::nat)) \<and> \<not> n < 2 \<and> Suc n = 3)"
proof -
  let ?lib = "\<lparr>devices = [], default_device_id = 0,
                 set_led_colors_result = (\<lambda>batch. Inr True), submitted = []\<rparr>"
  let ?l1 = "\<lparr>on_press = PyFunc 0, started = True, stop_signalled = False,
                       liveness = (\<lambda>n. True), polls = 0\<rparr>"
  let ?l0 = "\<lparr>on_press = PyFunc 0, started = True, stop_signalled = False,
                       liveness = (\<lambda>n. n < 2), polls = 0\<rparr>"
  let ?S1 = "\<lparr>library = ?lib, callback = PyFunc 0, listener = Some ?l1\<rparr>"
  let ?S0 = "\<lparr>library = ?lib, callback = PyFunc 0, listener = Some ?l0\<rparr>"
  have never: "enable_key_callback (PyBool False) ?S1 = None"
    using enable_key_callback_false_blocks [of ?S1 ?l1] by simp
  have "busy_wait (listener_stop ?l0) = Some ((listener_stop ?l0)\<lparr>polls := Suc (polls (listener_stop ?l0) + 2)\<rparr>)"
    by (rule busy_wait_steps) (simp_all add: listener_stop_def)
  then have ret: "enable_key_callback (PyBool False) ?S0 =
      Some (Inr (), ?S0\<lparr>listener := Some (?l0\<lparr>stop_signalled := True, polls := 3\<rparr>)\<rparr>)"
    by (simp add: enable_key_callback_disable listener_stop_def)
  from enable_key_callback_false_blocks [of ?S0 ?l0] ret
  have "\<exists>n. (\<forall>k<n. k < (2::nat)) \<and> \<not> n < 2 \<and> Suc n = 3"
    by simp
  with never ret show ?thesis by simp
qed

end
